theory Spec2Isabelle
  imports Main "HOL-Library.Word"
begin

section \<open>Domain: the user record (internal/domain/user.go)\<close>

text \<open>
  A \<open>time.Time\<close> is modelled by the instant it denotes, in nanoseconds since the Unix
  epoch. \<open>Time.Add\<close> is addition of the duration's nanoseconds and \<open>Time.Unix\<close> is the
  floor of the instant in seconds (Go keeps the nanosecond part non-negative, so the
  seconds round towards minus infinity, as \<open>div\<close> on \<open>int\<close> does). The zero \<open>time.Time\<close>
  is January 1 of year 1, UTC.
\<close>

type_synonym time = int

definition zeroTime :: time where
  "zeroTime = - 62135596800000000000"

definition Add :: "time \<Rightarrow> int \<Rightarrow> time" where
  "Add t d = t + d"

definition Unix :: "time \<Rightarrow> int" where
  "Unix t = t div 1000000000"

record User =
  ID :: string
  Username :: string
  Password :: string
  FullName :: "string option"
  RefreshToken :: "string option"
  IsActive :: bool
  CreatedAt :: time
  UpdatedAt :: time

definition GetID :: "User \<Rightarrow> string" where
  "GetID u = ID u"

definition GetUsername :: "User \<Rightarrow> string" where
  "GetUsername u = Username u"

definition GetPassword :: "User \<Rightarrow> string" where
  "GetPassword u = Password u"

text \<open>The composite literal \<open>domain.User{}\<close>: every field at its zero value.\<close>

definition zeroUser :: User where
  "zeroUser = \<lparr>ID = [], Username = [], Password = [], FullName = None,
     RefreshToken = None, IsActive = False, CreatedAt = zeroTime, UpdatedAt = zeroTime\<rparr>"

section \<open>The auth service (package auth)\<close>

subsection \<open>Values exchanged with the collaborators\<close>

text \<open>
  \<open>jwt.MapClaims\<close> is a \<open>map[string]interface{}\<close>: a partial map from claim names to
  dynamically typed values. Only the distinction "is a string" or "is something else"
  is observed by the service (the type assertions \<open>.(string)\<close>).
\<close>

datatype jvalue = JString string | JNumber int | JBool bool | JNull

type_synonym claims = "string \<rightharpoonup> jvalue"

datatype SigningMethod = HS256 | HS384 | HS512

datatype error =
    ErrInvalidToken
  | ErrExpiredToken
  | ErrInvalidCreds
  | ErrUserIsNotActive
  | ErrResourceNotFound
  | ErrOther string
  | Wrapped error string

record RequestLogin =
  req_Username :: string
  req_Password :: string

record RequestRefreshToken =
  req_RefreshToken :: string

record ResponseLogin =
  AccessToken :: string
  ExpiresAt :: string
  res_RefreshToken :: string

text \<open>\<open>var res ResponseLogin\<close>: the zero response.\<close>

definition zeroResponse :: ResponseLogin where
  "zeroResponse = \<lparr>AccessToken = [], ExpiresAt = [], res_RefreshToken = []\<rparr>"

text \<open>
  Modelled from the spec: the constants \<open>TokenTypeAccess\<close> and \<open>TokenTypeRefresh\<close> are
  declared in a file of package auth that is not among the sources; the specification
  gives their values as the type tags \<open>access\<close> and \<open>refresh\<close>.
\<close>

definition TokenTypeAccess :: string where
  "TokenTypeAccess = ''access''"

definition TokenTypeRefresh :: string where
  "TokenTypeRefresh = ''refresh''"

definition RFC3339 :: string where
  "RFC3339 = ''2006-01-02T15:04:05Z07:00''"

subsection \<open>Collaborators and the world they act on\<close>

text \<open>
  Every call that leaves the service is recorded, in order, in the trace of the world,
  so that "no lookup was made" or "the update carried this payload" are statements
  about the trace.
\<close>

datatype event =
    LookupByUsername string
  | LookupByID string
  | StoreUpdate string User
  | Compared string string
  | Hashed string
  | Signed SigningMethod claims string

record 'st world =
  store :: 'st
  ticks :: nat
  salts :: nat
  trace :: "event list"

text \<open>The updates sent to the store, in order: the key and the payload of each.\<close>

fun updates :: "event list \<Rightarrow> (string \<times> User) list" where
  "updates [] = []"
| "updates (StoreUpdate i p # evs) = (i, p) # updates evs"
| "updates (_ # evs) = updates evs"

text \<open>
  The service is parameterised by its configuration and by the collaborators it
  imports: request validation, \<open>auth.VerifyToken\<close>, the signer of jwt-go
  (\<open>NewWithClaims(method, claims).SignedString(key)\<close>), \<open>password.ComparePasswords\<close>,
  \<open>password.HashAndSalt\<close> (its random salt is the \<open>salts w\<close>-th draw), the user
  repository, the clock \<open>times.Now\<close> (\<open>Now s k\<close> is its \<open>k\<close>-th reading) and the calendar
  functions \<open>Time.AddDate\<close> and \<open>Time.Format\<close>. \<open>TokenExpiration\<close> is the configured
  number of minutes, a Go \<open>int\<close>.
\<close>

record 'st Service =
  SigningKey :: string
  TokenExpiration :: "64 word"
  ValidateLogin :: "RequestLogin \<Rightarrow> error option"
  ValidateRefreshToken :: "RequestRefreshToken \<Rightarrow> error option"
  VerifyToken :: "string \<Rightarrow> string \<Rightarrow> error + claims"
  SignedString :: "SigningMethod \<Rightarrow> claims \<Rightarrow> string \<Rightarrow> error + string"
  ComparePasswords :: "string \<Rightarrow> string \<Rightarrow> bool"
  HashAndSalt :: "nat \<Rightarrow> string \<Rightarrow> error + string"
  GetByUsername :: "'st \<Rightarrow> string \<Rightarrow> error + User"
  GetByID :: "'st \<Rightarrow> string \<Rightarrow> error + User"
  Update :: "'st \<Rightarrow> string \<Rightarrow> User \<Rightarrow> error option \<times> 'st"
  Now :: "nat \<Rightarrow> time"
  AddDate :: "time \<Rightarrow> int \<Rightarrow> int \<Rightarrow> int \<Rightarrow> time"
  Format :: "time \<Rightarrow> string \<Rightarrow> string"

text \<open>A Go function either returns or panics; a panic unwinds the request.\<close>

datatype 'a outcome = Returns (returned: 'a) | Panics

subsection \<open>Helpers of the standard library\<close>

text \<open>\<open>errors.Wrap\<close> returns nil for a nil error.\<close>

definition errors_Wrap :: "error option \<Rightarrow> string \<Rightarrow> error option" where
  "errors_Wrap err msg = (case err of None \<Rightarrow> None | Some e \<Rightarrow> Some (Wrapped e msg))"

text \<open>
  \<open>time.Duration(n) * time.Minute\<close>: a product of two \<open>int64\<close> values, which wraps;
  the result is read as a signed number of nanoseconds.
\<close>

definition Minute :: "64 word" where
  "Minute = 60000000000"

definition minutes :: "64 word \<Rightarrow> int" where
  "minutes n = sint (n * Minute)"

text \<open>jwt-go's \<open>SignedString\<close> returns the empty string together with an error.\<close>

definition signed_result :: "error + string \<Rightarrow> string \<times> error option" where
  "signed_result r = (case r of Inl e \<Rightarrow> ([], Some e) | Inr t \<Rightarrow> (t, None))"

text \<open>\<open>val, ok := claims[k].(string)\<close>, leaving the zero string when \<open>ok\<close> is false.\<close>

definition string_claim :: "claims \<Rightarrow> string \<Rightarrow> string" where
  "string_claim cl k = (case cl k of Some (JString v) \<Rightarrow> v | _ \<Rightarrow> [])"

subsection \<open>Token generation\<close>

text \<open>
  The claims of the two tokens. The argument \<open>k\<close> is the number of clock readings
  taken before \<open>generateAccessToken\<close> (or \<open>generateRefreshToken\<close>) is entered:
  \<open>generateAccessToken\<close> reads the clock once for \<open>expiresAt\<close> (reading \<open>k\<close>) and once
  more for \<open>expiresAtUnix\<close> (reading \<open>k + 1\<close>).
\<close>

definition access_claims :: "'st Service \<Rightarrow> nat \<Rightarrow> User \<Rightarrow> claims" where
  "access_claims s k identity =
     [''id'' \<mapsto> JString (GetID identity),
      ''username'' \<mapsto> JString (GetUsername identity),
      ''exp'' \<mapsto> JNumber (Unix (Add (Now s (Suc k)) (minutes (TokenExpiration s)))),
      ''token_type'' \<mapsto> JString TokenTypeAccess]"

definition generateAccessToken ::
  "'st Service \<Rightarrow> 'st world \<Rightarrow> User \<Rightarrow> (string \<times> time \<times> error option) \<times> 'st world" where
  "generateAccessToken s w identity =
     (let expiresAt = Add (Now s (ticks w)) (minutes (TokenExpiration s));
          cl = access_claims s (ticks w) identity;
          (accessToken, err) = signed_result (SignedString s HS256 cl (SigningKey s))
      in ((accessToken, expiresAt, errors_Wrap err ''cannot generate token''),
          w\<lparr>ticks := ticks w + 2, trace := trace w @ [Signed HS256 cl (SigningKey s)]\<rparr>))"

definition refresh_claims :: "'st Service \<Rightarrow> nat \<Rightarrow> User \<Rightarrow> claims" where
  "refresh_claims s k identity =
     [''id'' \<mapsto> JString (GetID identity),
      ''exp'' \<mapsto> JNumber (Unix (AddDate s (Now s k) 1000 0 0)),
      ''token_type'' \<mapsto> JString TokenTypeRefresh]"

definition generateRefreshToken ::
  "'st Service \<Rightarrow> 'st world \<Rightarrow> User \<Rightarrow> (string \<times> error option) \<times> 'st world" where
  "generateRefreshToken s w identity =
     (let cl = refresh_claims s (ticks w) identity;
          (refreshToken, err) = signed_result (SignedString s HS256 cl (SigningKey s))
      in ((refreshToken, errors_Wrap err ''cannot generate token''),
          w\<lparr>ticks := ticks w + 1, trace := trace w @ [Signed HS256 cl (SigningKey s)]\<rparr>))"

text \<open>
  \<open>generateJWT\<close> has named results, so each bare \<open>return\<close> hands back whatever has been
  assigned so far. The \<open>:=\<close> of the hashing step declares only \<open>hashedRefreshToken\<close>; \<open>err\<close>
  is the named result.
\<close>

definition update_payload :: "User \<Rightarrow> string \<Rightarrow> User" where
  "update_payload identity hashedRefreshToken =
     zeroUser\<lparr>ID := GetID identity, RefreshToken := Some hashedRefreshToken\<rparr>"

definition generateJWT ::
  "'st Service \<Rightarrow> 'st world \<Rightarrow> User \<Rightarrow> (string \<times> time \<times> string \<times> error option) \<times> 'st world" where
  "generateJWT s w identity =
     (case generateAccessToken s w identity of
        ((accessToken, expiresAt, Some e), w1) \<Rightarrow> ((accessToken, expiresAt, [], Some e), w1)
      | ((accessToken, expiresAt, None), w1) \<Rightarrow>
     (case generateRefreshToken s w1 identity of
        ((refreshToken, Some e), w2) \<Rightarrow> ((accessToken, expiresAt, refreshToken, Some e), w2)
      | ((refreshToken, None), w2) \<Rightarrow>
     (let w3 = w2\<lparr>salts := salts w2 + 1, trace := trace w2 @ [Hashed refreshToken]\<rparr>
      in case HashAndSalt s (salts w2) refreshToken of
           Inl e \<Rightarrow> ((accessToken, expiresAt, refreshToken, Some e), w3)
         | Inr hashedRefreshToken \<Rightarrow>
     (let user = update_payload identity hashedRefreshToken;
          (err, st) = Update s (store w3) (GetID identity) user
      in ((accessToken, expiresAt, refreshToken, err),
          w3\<lparr>store := st, trace := trace w3 @ [StoreUpdate (GetID identity) user]\<rparr>)))))"

subsection \<open>Authentication\<close>

definition authenticate ::
  "'st Service \<Rightarrow> 'st world \<Rightarrow> string \<Rightarrow> string \<Rightarrow> (error + User) \<times> 'st world" where
  "authenticate s w username plainPwd =
     (let w1 = w\<lparr>trace := trace w @ [LookupByUsername username]\<rparr>
      in case GetByUsername s (store w) username of
           Inl err \<Rightarrow>
             if err = ErrResourceNotFound then (Inl ErrInvalidCreds, w1) else (Inl err, w1)
         | Inr user \<Rightarrow>
             if username \<noteq> GetUsername user then (Inl ErrInvalidCreds, w1)
             else
               (let w2 = w1\<lparr>trace := trace w1 @ [Compared (GetPassword user) plainPwd]\<rparr>
                in if ComparePasswords s (GetPassword user) plainPwd
                   then (if \<not> IsActive user then (Inl ErrUserIsNotActive, w2)
                         else (Inr user, w2))
                   else (Inl ErrInvalidCreds, w2)))"

subsection \<open>The two entry points\<close>

definition response ::
  "'st Service \<Rightarrow> (string \<times> time \<times> string \<times> error option) \<times> 'st world
     \<Rightarrow> (ResponseLogin \<times> error option) \<times> 'st world" where
  "response s r =
     (case r of ((accessToken, expiresAt, refreshToken, err), w) \<Rightarrow>
        ((\<lparr>AccessToken = accessToken, ExpiresAt = Format s expiresAt RFC3339,
           res_RefreshToken = refreshToken\<rparr>, err), w))"

definition Login ::
  "'st Service \<Rightarrow> 'st world \<Rightarrow> RequestLogin \<Rightarrow> (ResponseLogin \<times> error option) \<times> 'st world" where
  "Login s w req =
     (case ValidateLogin s req of
        Some err \<Rightarrow> ((zeroResponse, Some err), w)
      | None \<Rightarrow>
     (case authenticate s w (req_Username req) (req_Password req) of
        (Inl err, w1) \<Rightarrow> ((zeroResponse, Some err), w1)
      | (Inr identity, w1) \<Rightarrow> response s (generateJWT s w1 identity)))"

text \<open>
  \<open>*user.RefreshToken\<close> dereferences the nullable pointer of the stored record before
  \<open>ComparePasswords\<close> is entered: on a nil pointer the Go runtime panics.
\<close>

definition RefreshToken_op ::
  "'st Service \<Rightarrow> 'st world \<Rightarrow> RequestRefreshToken
     \<Rightarrow> ((ResponseLogin \<times> error option) \<times> 'st world) outcome" where
  "RefreshToken_op s w req =
     (case ValidateRefreshToken s req of
        Some err \<Rightarrow> Returns ((zeroResponse, Some err), w)
      | None \<Rightarrow>
     (case VerifyToken s (req_RefreshToken req) (SigningKey s) of
        Inl err \<Rightarrow> Returns ((zeroResponse, Some ErrInvalidToken), w)
      | Inr cl \<Rightarrow>
     (let tokenType = string_claim cl ''token_type''
      in if tokenType \<noteq> TokenTypeRefresh then Returns ((zeroResponse, Some ErrInvalidToken), w)
         else
     (let id = string_claim cl ''id'';
          w1 = w\<lparr>trace := trace w @ [LookupByID id]\<rparr>
      in case GetByID s (store w) id of
           Inl err \<Rightarrow> Returns ((zeroResponse, Some err), w1)
         | Inr user \<Rightarrow>
     (case RefreshToken user of
        None \<Rightarrow> Panics
      | Some stored \<Rightarrow>
     (let w2 = w1\<lparr>trace := trace w1 @ [Compared stored (req_RefreshToken req)]\<rparr>
      in if \<not> ComparePasswords s stored (req_RefreshToken req)
         then Returns ((zeroResponse, Some ErrExpiredToken), w2)
         else Returns (response s (generateJWT s w2 user))))))))"

section \<open>What the service expects of its collaborators\<close>

text \<open>
  The rotation of refresh tokens relies on three properties of the collaborators,
  none of which the service can check. A refresh token issued by the service verifies
  under the signing key and carries the type tag and the id it was signed with:
\<close>

definition verify_contract :: "'st Service \<Rightarrow> bool" where
  "verify_contract s \<longleftrightarrow>
     (\<forall>k u t. SignedString s HS256 (refresh_claims s k u) (SigningKey s) = Inr t \<longrightarrow>
        (\<exists>cl. VerifyToken s t (SigningKey s) = Inr cl \<and>
              string_claim cl ''token_type'' = TokenTypeRefresh \<and>
              string_claim cl ''id'' = GetID u))"

text \<open>A salted hash matches the plaintext it was computed from, and no other:\<close>

definition hash_contract :: "'st Service \<Rightarrow> bool" where
  "hash_contract s \<longleftrightarrow>
     (\<forall>n p h q. HashAndSalt s n p = Inr h \<longrightarrow> ComparePasswords s h q = (q = p))"

text \<open>
  After an update that reported no error, looking the id up yields a record with that
  id whose refresh-token hash is the one of the payload:
\<close>

definition store_contract :: "'st Service \<Rightarrow> bool" where
  "store_contract s \<longleftrightarrow>
     (\<forall>st i p st'. Update s st i p = (None, st') \<longrightarrow>
        (\<exists>u. GetByID s st' i = Inr u \<and> GetID u = i \<and> RefreshToken u = RefreshToken p))"

subsection \<open>The rotation scenario\<close>

text \<open>
  A login followed by two refresh calls that both present the refresh token returned
  by the login. The result is \<open>None\<close> when a call panics.
\<close>

definition login_refresh_refresh ::
  "'st Service \<Rightarrow> 'st world \<Rightarrow> RequestLogin
     \<Rightarrow> ((ResponseLogin \<times> error option) \<times> (ResponseLogin \<times> error option)
          \<times> (ResponseLogin \<times> error option)) option" where
  "login_refresh_refresh s w lreq =
     (case Login s w lreq of (r1, w1) \<Rightarrow>
        (let req = \<lparr>req_RefreshToken = res_RefreshToken (fst r1)\<rparr>
         in case RefreshToken_op s w1 req of
              Panics \<Rightarrow> None
            | Returns (r2, w2) \<Rightarrow>
                (case RefreshToken_op s w2 req of
                   Panics \<Rightarrow> None
                 | Returns (r3, w3) \<Rightarrow> Some (r1, r2, r3))))"

section \<open>A concrete instance of the collaborators\<close>

text \<open>
  Modelled from the spec: the user repository is not among the sources. The
  specification describes it as a store with lookup by username, lookup by id (both
  failing with a not-found error) and a partial update that changes the refresh-token
  hash of the record with the given id and no other field. Here it is a list of records.
\<close>

definition mem_GetByUsername :: "User list \<Rightarrow> string \<Rightarrow> error + User" where
  "mem_GetByUsername st name =
     (case find (\<lambda>u. Username u = name) st of
        None \<Rightarrow> Inl ErrResourceNotFound
      | Some u \<Rightarrow> Inr u)"

definition mem_GetByID :: "User list \<Rightarrow> string \<Rightarrow> error + User" where
  "mem_GetByID st i =
     (case find (\<lambda>u. ID u = i) st of
        None \<Rightarrow> Inl ErrResourceNotFound
      | Some u \<Rightarrow> Inr u)"

definition mem_Update :: "User list \<Rightarrow> string \<Rightarrow> User \<Rightarrow> error option \<times> User list" where
  "mem_Update st i p =
     (if list_ex (\<lambda>u. ID u = i) st
      then (None, map (\<lambda>u. if ID u = i then u\<lparr>RefreshToken := RefreshToken p\<rparr> else u) st)
      else (Some ErrResourceNotFound, st))"

text \<open>A repository whose every call fails, as when the database is unreachable.\<close>

definition down_Get :: "User list \<Rightarrow> string \<Rightarrow> error + User" where
  "down_Get st x = Inl (ErrOther ''connection refused'')"

definition down_Update :: "User list \<Rightarrow> string \<Rightarrow> User \<Rightarrow> error option \<times> User list" where
  "down_Update st i p = (Some (ErrOther ''connection refused''), st)"

text \<open>
  A signer with a finite code book: each token string stands for one set of claims,
  signed under the key \<open>fake_key\<close>. Signing is a function of the claims, as HMAC-SHA256
  is; verification returns the claims the token stands for.
\<close>

definition fake_key :: string where
  "fake_key = ''k''"

definition claim_names :: "string list" where
  "claim_names = [''id'', ''username'', ''exp'', ''token_type'']"

definition same_claims :: "(string \<times> jvalue) list \<Rightarrow> claims \<Rightarrow> bool" where
  "same_claims al cl = list_all (\<lambda>k. map_of al k = cl k) claim_names"

definition fake_SignedString ::
  "(string \<times> (string \<times> jvalue) list) list \<Rightarrow> SigningMethod \<Rightarrow> claims \<Rightarrow> string
     \<Rightarrow> error + string" where
  "fake_SignedString book m cl key =
     (if key \<noteq> fake_key then Inl (ErrOther ''key is invalid'')
      else case find (\<lambda>e. same_claims (snd e) cl) book of
             None \<Rightarrow> Inl (ErrOther ''unknown claims'')
           | Some e \<Rightarrow> Inr (fst e))"

definition fake_VerifyToken ::
  "(string \<times> (string \<times> jvalue) list) list \<Rightarrow> string \<Rightarrow> string \<Rightarrow> error + claims" where
  "fake_VerifyToken book tok key =
     (if key \<noteq> fake_key then Inl (ErrOther ''signature is invalid'')
      else case map_of book tok of
             None \<Rightarrow> Inl (ErrOther ''token is malformed'')
           | Some al \<Rightarrow> Inr (map_of al))"

text \<open>
  A hash that prefixes the plaintext with its salt (\<open>n\<close> times the letter s) and a
  separator; comparison strips the salt.
\<close>

definition fake_HashAndSalt :: "nat \<Rightarrow> string \<Rightarrow> error + string" where
  "fake_HashAndSalt n p = Inr (replicate n (CHR ''s'') @ ''#'' @ p)"

definition fake_ComparePasswords :: "string \<Rightarrow> string \<Rightarrow> bool" where
  "fake_ComparePasswords h p = (dropWhile (\<lambda>c. c = CHR ''s'') h = ''#'' @ p)"

text \<open>
  From 1970 to 2970 there are 365243 days, which is what \<open>AddDate(1000, 0, 0)\<close> adds to
  an instant of 1970; \<open>Format\<close> is tabulated for the instants used below (UTC).
\<close>

definition fake_AddDate :: "time \<Rightarrow> int \<Rightarrow> int \<Rightarrow> int \<Rightarrow> time" where
  "fake_AddDate t y m d =
     t + y * 31556995200000000 + m * 2592000000000000 + d * 86400000000000"

definition fake_Format :: "time \<Rightarrow> string \<Rightarrow> string" where
  "fake_Format t layout =
     (if Unix t = 60 then ''1970-01-01T00:01:00Z''
      else if Unix t = 61 then ''1970-01-01T00:01:01Z''
      else if Unix t = 63 then ''1970-01-01T00:01:03Z''
      else if Unix t = - 6446744074 then ''1765-09-16T21:45:26Z''
      else ''0001-01-01T00:00:00Z'')"

definition access_entry :: "string \<Rightarrow> int \<Rightarrow> string \<times> (string \<times> jvalue) list" where
  "access_entry tok e =
     (tok, [(''id'', JString ''u1''), (''username'', JString ''alice''),
            (''exp'', JNumber e), (''token_type'', JString ''access'')])"

definition refresh_entry :: "string \<Rightarrow> int \<Rightarrow> string \<times> (string \<times> jvalue) list" where
  "refresh_entry tok e =
     (tok, [(''id'', JString ''u1''), (''exp'', JNumber e),
            (''token_type'', JString ''refresh'')])"

definition anonymous_entry :: "string \<times> (string \<times> jvalue) list" where
  "anonymous_entry =
     (''R-anonymous'', [(''exp'', JNumber 31556995200), (''token_type'', JString ''refresh'')])"

definition book :: "(string \<times> (string \<times> jvalue) list) list" where
  "book = [access_entry ''A60'' 60, access_entry ''A61'' 61, access_entry ''A64'' 64,
           refresh_entry ''R0'' 31556995200, refresh_entry ''R1'' 31556995201,
           refresh_entry ''R2'' 31556995202,
           refresh_entry ''R5'' 31556995205, anonymous_entry,
           access_entry ''A-wrapped'' (- 6446744074)]"

definition alice :: User where
  "alice = \<lparr>ID = ''u1'', Username = ''alice'', Password = ''#secret'', FullName = None,
     RefreshToken = None, IsActive = True, CreatedAt = 0, UpdatedAt = 0\<rparr>"

definition carol :: User where
  "carol = \<lparr>ID = ''u2'', Username = ''carol'', Password = ''#hunter2'', FullName = None,
     RefreshToken = None, IsActive = False, CreatedAt = 0, UpdatedAt = 0\<rparr>"

definition fake :: "(nat \<Rightarrow> time) \<Rightarrow> User list Service" where
  "fake clock =
     \<lparr>SigningKey = fake_key, TokenExpiration = 1,
      ValidateLogin = (\<lambda>r. if req_Username r = [] \<or> req_Password r = []
                           then Some (ErrOther ''validation failed'') else None),
      ValidateRefreshToken = (\<lambda>r. if req_RefreshToken r = []
                           then Some (ErrOther ''validation failed'') else None),
      VerifyToken = fake_VerifyToken book, SignedString = fake_SignedString book,
      ComparePasswords = fake_ComparePasswords, HashAndSalt = fake_HashAndSalt,
      GetByUsername = mem_GetByUsername, GetByID = mem_GetByID, Update = mem_Update,
      Now = clock, AddDate = fake_AddDate, Format = fake_Format\<rparr>"

text \<open>A calendar that adds nothing, so that the refresh claims are not in the code book.\<close>

definition stuck_AddDate :: "time \<Rightarrow> int \<Rightarrow> int \<Rightarrow> int \<Rightarrow> time" where
  "stuck_AddDate t y m d = t"

text \<open>Four clocks: one that stands still, one that advances a nanosecond per reading,
  one that advances a second per reading, and one that passes a second boundary between
  its first two readings.\<close>

definition nanosecond_clock :: "nat \<Rightarrow> time" where
  "nanosecond_clock k = int k"

definition frozen_clock :: "nat \<Rightarrow> time" where
  "frozen_clock k = 0"

definition ticking_clock :: "nat \<Rightarrow> time" where
  "ticking_clock k = int k * 1000000000"

definition boundary_clock :: "nat \<Rightarrow> time" where
  "boundary_clock k = 999999999 + int k"

definition world0 :: "User list world" where
  "world0 = \<lparr>store = [alice, carol], ticks = 0, salts = 0, trace = []\<rparr>"

text \<open>The world after a first login of alice under the clock that stands still.\<close>

definition world1 :: "User list world" where
  "world1 = \<lparr>store = [alice\<lparr>RefreshToken := Some ''#R0''\<rparr>, carol],
              ticks = 3, salts = 1, trace = []\<rparr>"

definition alice_login :: RequestLogin where
  "alice_login = \<lparr>req_Username = ''alice'', req_Password = ''secret''\<rparr>"

section \<open>Properties\<close>

subsection \<open>Unfolding the service\<close>

lemmas service_defs = Login_def RefreshToken_op_def authenticate_def generateJWT_def
  generateAccessToken_def generateRefreshToken_def response_def signed_result_def
  errors_Wrap_def update_payload_def string_claim_def GetID_def GetUsername_def GetPassword_def
  TokenTypeRefresh_def TokenTypeAccess_def

lemmas fake_defs = fake_def world0_def world1_def stuck_AddDate_def alice_def carol_def
  alice_login_def frozen_clock_def nanosecond_clock_def ticking_clock_def boundary_clock_def
  mem_GetByUsername_def mem_GetByID_def mem_Update_def down_Get_def down_Update_def
  fake_key_def claim_names_def same_claims_def fake_SignedString_def fake_VerifyToken_def
  fake_HashAndSalt_def fake_ComparePasswords_def fake_AddDate_def fake_Format_def
  access_entry_def refresh_entry_def anonymous_entry_def book_def access_claims_def
  refresh_claims_def Unix_def Add_def minutes_def Minute_def zeroUser_def zeroTime_def
  zeroResponse_def RFC3339_def

lemmas eval = service_defs fake_defs Let_def

lemma updates_append: "updates (xs @ ys) = updates xs @ updates ys"
  by (induction xs rule: updates.induct) simp_all

lemma tuple_collapse:
  "r = ((fst (fst r), fst (snd (fst r)), fst (snd (snd (fst r))), snd (snd (snd (fst r)))), snd r)"
  by (simp add: prod_eq_iff)

text \<open>
  The four ways through \<open>generateJWT\<close>: the access token cannot be signed, the refresh
  token cannot be signed, the refresh token cannot be hashed, or the update is sent.
\<close>

lemma generateJWT_cases:
  "generateJWT s w u =
     (case SignedString s HS256 (access_claims s (ticks w) u) (SigningKey s) of
        Inl e \<Rightarrow> (([], Add (Now s (ticks w)) (minutes (TokenExpiration s)), [],
                   Some (Wrapped e ''cannot generate token'')),
                  w\<lparr>ticks := ticks w + 2,
                    trace := trace w @ [Signed HS256 (access_claims s (ticks w) u) (SigningKey s)]\<rparr>)
      | Inr at \<Rightarrow>
     (case SignedString s HS256 (refresh_claims s (ticks w + 2) u) (SigningKey s) of
        Inl e \<Rightarrow> ((at, Add (Now s (ticks w)) (minutes (TokenExpiration s)), [],
                   Some (Wrapped e ''cannot generate token'')),
                  w\<lparr>ticks := ticks w + 3,
                    trace := trace w @ [Signed HS256 (access_claims s (ticks w) u) (SigningKey s),
                                        Signed HS256 (refresh_claims s (ticks w + 2) u) (SigningKey s)]\<rparr>)
      | Inr rt \<Rightarrow>
     (case HashAndSalt s (salts w) rt of
        Inl e \<Rightarrow> ((at, Add (Now s (ticks w)) (minutes (TokenExpiration s)), rt, Some e),
                  w\<lparr>ticks := ticks w + 3, salts := salts w + 1,
                    trace := trace w @ [Signed HS256 (access_claims s (ticks w) u) (SigningKey s),
                                        Signed HS256 (refresh_claims s (ticks w + 2) u) (SigningKey s),
                                        Hashed rt]\<rparr>)
      | Inr h \<Rightarrow>
          ((at, Add (Now s (ticks w)) (minutes (TokenExpiration s)), rt,
            fst (Update s (store w) (GetID u) (update_payload u h))),
           w\<lparr>store := snd (Update s (store w) (GetID u) (update_payload u h)),
             ticks := ticks w + 3, salts := salts w + 1,
             trace := trace w @ [Signed HS256 (access_claims s (ticks w) u) (SigningKey s),
                                 Signed HS256 (refresh_claims s (ticks w + 2) u) (SigningKey s),
                                 Hashed rt, StoreUpdate (GetID u) (update_payload u h)]\<rparr>))))"
  by (simp add: generateJWT_def generateAccessToken_def generateRefreshToken_def
      signed_result_def errors_Wrap_def Let_def split: sum.splits prod.splits)

lemma claims_VerifyToken:
  "access_claims (s\<lparr>VerifyToken := v\<rparr>) k u = access_claims s k u"
  "refresh_claims (s\<lparr>VerifyToken := v\<rparr>) k u = refresh_claims s k u"
  by (simp_all add: access_claims_def refresh_claims_def)

lemma generateJWT_VerifyToken:
  "generateJWT (s\<lparr>VerifyToken := v\<rparr>) w u = generateJWT s w u"
  by (simp add: generateJWT_cases claims_VerifyToken cong: sum.case_cong)

lemma response_VerifyToken: "response (s\<lparr>VerifyToken := v\<rparr>) r = response s r"
  by (simp add: response_def)

lemma response_eq:
  "response s r = ((res, e), w') \<Longrightarrow>
     \<exists>ex. r = ((AccessToken res, ex, res_RefreshToken res, e), w')"
  by (cases r) (auto simp add: response_def split: prod.splits)

lemma generateJWT_success:
  assumes "generateJWT s w u = ((at, ex, rt, None), w')"
  shows "SignedString s HS256 (refresh_claims s (ticks w + 2) u) (SigningKey s) = Inr rt
       \<and> (\<exists>h. HashAndSalt s (salts w) rt = Inr h
              \<and> Update s (store w) (GetID u) (update_payload u h) = (None, store w'))"
  using assms
  by (auto simp add: generateJWT_cases prod_eq_iff split: sum.splits)

lemma authenticate_success:
  assumes "GetByUsername s (store w) name = Inr u" "Username u = name"
    "ComparePasswords s (Password u) pwd" "IsActive u"
  shows "authenticate s w name pwd =
           (Inr u, w\<lparr>trace := trace w @ [LookupByUsername name, Compared (Password u) pwd]\<rparr>)"
  using assms by (simp add: authenticate_def GetUsername_def GetPassword_def Let_def)

lemma authenticate_frame:
  "authenticate s w name pwd = (r, w1) \<Longrightarrow>
     store w1 = store w \<and> ticks w1 = ticks w \<and> salts w1 = salts w"
  by (auto simp add: authenticate_def Let_def split: sum.splits if_splits)

lemma Login_success_path:
  assumes "ValidateLogin s req = None"
    "GetByUsername s (store w) (req_Username req) = Inr u" "Username u = req_Username req"
    "ComparePasswords s (Password u) (req_Password req)" "IsActive u"
  shows "Login s w req =
           response s (generateJWT s
             (w\<lparr>trace := trace w @ [LookupByUsername (req_Username req),
                                    Compared (Password u) (req_Password req)]\<rparr>) u)"
  using assms by (simp add: Login_def authenticate_success)

lemma Login_success:
  assumes "Login s w req = ((res, None), w')"
  shows "\<exists>u w1 ex. store w1 = store w \<and> ticks w1 = ticks w \<and> salts w1 = salts w
           \<and> generateJWT s w1 u = ((AccessToken res, ex, res_RefreshToken res, None), w')"
proof -
  from assms obtain u w1
    where a: "authenticate s w (req_Username req) (req_Password req) = (Inr u, w1)"
      and r: "response s (generateJWT s w1 u) = ((res, None), w')"
    by (auto simp add: Login_def split: option.splits prod.splits sum.splits)
  from response_eq[OF r] obtain ex where
    "generateJWT s w1 u = ((AccessToken res, ex, res_RefreshToken res, None), w')" by blast
  with authenticate_frame[OF a] show ?thesis by blast
qed

lemma RefreshToken_success_path:
  assumes "ValidateRefreshToken s req = None"
    "VerifyToken s (req_RefreshToken req) (SigningKey s) = Inr cl"
    "string_claim cl ''token_type'' = TokenTypeRefresh"
    "GetByID s (store w) (string_claim cl ''id'') = Inr u"
    "RefreshToken u = Some stored"
    "ComparePasswords s stored (req_RefreshToken req)"
  shows "RefreshToken_op s w req =
           Returns (response s (generateJWT s
             (w\<lparr>trace := trace w @ [LookupByID (string_claim cl ''id''),
                                    Compared stored (req_RefreshToken req)]\<rparr>) u))"
  using assms by (simp add: RefreshToken_op_def Let_def)

lemma RefreshToken_expired_path:
  assumes "ValidateRefreshToken s req = None"
    "VerifyToken s (req_RefreshToken req) (SigningKey s) = Inr cl"
    "string_claim cl ''token_type'' = TokenTypeRefresh"
    "GetByID s (store w) (string_claim cl ''id'') = Inr u"
    "RefreshToken u = Some stored"
    "\<not> ComparePasswords s stored (req_RefreshToken req)"
  shows "RefreshToken_op s w req =
           Returns ((zeroResponse, Some ErrExpiredToken),
             w\<lparr>trace := trace w @ [LookupByID (string_claim cl ''id''),
                                    Compared stored (req_RefreshToken req)]\<rparr>)"
  using assms by (simp add: RefreshToken_op_def Let_def)


subsection \<open>The concrete collaborators keep the contracts\<close>

lemma fake_hash_contract: "hash_contract (fake clock)"
proof -
  have "dropWhile (\<lambda>c. c = CHR ''s'') (replicate n (CHR ''s'') @ ''#'' @ p) = ''#'' @ p" for n p
    by (induction n) simp_all
  then show ?thesis
    by (auto simp add: hash_contract_def fake_def fake_HashAndSalt_def fake_ComparePasswords_def)
qed

lemma mem_find_updated:
  "list_ex (\<lambda>u. ID u = i) st \<Longrightarrow>
     \<exists>u. find (\<lambda>u. ID u = i) (map (\<lambda>u. if ID u = i then u\<lparr>RefreshToken := h\<rparr> else u) st) = Some u
        \<and> ID u = i \<and> RefreshToken u = h"
  by (induction st) auto

lemma fake_store_contract: "store_contract (fake clock)"
  unfolding store_contract_def
proof (intro allI impI)
  fix st i p st'
  assume "Update (fake clock) st i p = (None, st')"
  then have ex: "list_ex (\<lambda>u. ID u = i) st"
    and st': "st' = map (\<lambda>u. if ID u = i then u\<lparr>RefreshToken := RefreshToken p\<rparr> else u) st"
    by (auto simp add: fake_def mem_Update_def split: if_splits)
  from mem_find_updated[OF ex, of "RefreshToken p"] st'
  show "\<exists>u. GetByID (fake clock) st' i = Inr u \<and> GetID u = i \<and> RefreshToken u = RefreshToken p"
    by (auto simp add: fake_def mem_GetByID_def GetID_def)
qed

lemma fake_verify_contract: "verify_contract (fake clock)"
  unfolding verify_contract_def
  by (auto simp add: fake_def fake_SignedString_def fake_VerifyToken_def book_def
      access_entry_def refresh_entry_def anonymous_entry_def same_claims_def claim_names_def
      refresh_claims_def string_claim_def TokenTypeRefresh_def GetID_def
      split: if_splits)

text \<open>
  A token pair issued without error: the refresh token verifies, and the record the
  store now returns for the identity carries the hash of exactly that token.
\<close>

lemma issued_token_stored:
  assumes contracts: "verify_contract s" "hash_contract s" "store_contract s"
    and gen: "generateJWT s w u = ((at, ex, rt, None), w')"
  shows "\<exists>cl u' h. VerifyToken s rt (SigningKey s) = Inr cl
           \<and> string_claim cl ''token_type'' = TokenTypeRefresh
           \<and> string_claim cl ''id'' = GetID u
           \<and> GetByID s (store w') (GetID u) = Inr u' \<and> GetID u' = GetID u
           \<and> RefreshToken u' = Some h
           \<and> HashAndSalt s (salts w) rt = Inr h
           \<and> (\<forall>q. ComparePasswords s h q = (q = rt))"
proof -
  from generateJWT_success[OF gen] obtain h where
    sg: "SignedString s HS256 (refresh_claims s (ticks w + 2) u) (SigningKey s) = Inr rt"
    and hs: "HashAndSalt s (salts w) rt = Inr h"
    and up: "Update s (store w) (GetID u) (update_payload u h) = (None, store w')"
    by blast
  from contracts(1) sg obtain cl where
    v: "VerifyToken s rt (SigningKey s) = Inr cl"
      "string_claim cl ''token_type'' = TokenTypeRefresh" "string_claim cl ''id'' = GetID u"
    unfolding verify_contract_def by blast
  from contracts(3) up obtain u' where
    g: "GetByID s (store w') (GetID u) = Inr u'" "GetID u' = GetID u"
      "RefreshToken u' = RefreshToken (update_payload u h)"
    unfolding store_contract_def by blast
  have c: "\<forall>q. ComparePasswords s h q = (q = rt)"
    using contracts(2) hs unfolding hash_contract_def by blast
  from v g hs c show ?thesis by (simp add: update_payload_def)
qed

subsection \<open>Refresh against a record without a stored hash\<close>

text \<open>
  C1. The claim: for an identity whose stored refresh-token hash is nil, a validly
  signed token of type refresh carrying its id is answered with \<open>ErrExpiredToken\<close>, and
  the comparison step never crashes. The code dereferences \<open>user.RefreshToken\<close> before
  the comparison is entered, so on such a record the request panics: whenever
  validation passes, the token verifies with type refresh and a string id, and the
  lookup returns a record without a hash, \<open>RefreshToken\<close> does not return.
\<close>

theorem RefreshToken_nil_hash_panics:
  assumes "ValidateRefreshToken s req = None"
    and "VerifyToken s (req_RefreshToken req) (SigningKey s) = Inr cl"
    and "cl ''token_type'' = Some (JString ''refresh'')"
    and "cl ''id'' = Some (JString i)"
    and "GetByID s (store w) i = Inr u"
    and "RefreshToken u = None"
  shows "RefreshToken_op s w req = Panics"
  using assms
  by (simp add: RefreshToken_op_def string_claim_def TokenTypeRefresh_def Let_def)

text \<open>
  C1, at a concrete input: alice has never logged in, and the token \<open>R0\<close> is a refresh
  token for her id signed under the configured key.
\<close>

theorem RefreshToken_nil_hash_panics_witness:
  "RefreshToken alice = None
   \<and> RefreshToken_op (fake frozen_clock) world0 \<lparr>req_RefreshToken = ''R0''\<rparr> = Panics"
proof -
  let ?s = "fake frozen_clock"
  let ?req = "\<lparr>req_RefreshToken = ''R0''\<rparr>"
  let ?cl = "map_of (snd (refresh_entry ''R0'' 31556995200))"
  have 1: "ValidateRefreshToken ?s ?req = None" by (simp add: fake_def)
  have 2: "VerifyToken ?s (req_RefreshToken ?req) (SigningKey ?s) = Inr ?cl"
    by (simp add: fake_defs)
  have 3: "?cl ''token_type'' = Some (JString ''refresh'')" by (simp add: refresh_entry_def)
  have 4: "?cl ''id'' = Some (JString ''u1'')" by (simp add: refresh_entry_def)
  have 5: "GetByID ?s (store world0) ''u1'' = Inr alice" by (simp add: fake_defs)
  have 6: "RefreshToken alice = None" by (simp add: alice_def)
  from RefreshToken_nil_hash_panics[OF 1 2 3 4 5 6] 6 show ?thesis by simp
qed

subsection \<open>Rotation of refresh tokens\<close>

text \<open>
  C2, as amended. Let the collaborators keep their contracts and let a login return
  without error. Then the record the store returns for the identity carries the hash
  of the refresh token of the login, and a first refresh with that token passes
  validation, verification, the type check, the lookup and the hash comparison: its
  result is the result of issuing a new pair for the stored record. If that issuance
  returns without error, the stored hash is the hash of the newly issued refresh
  token, and a second refresh with the old token is answered with \<open>ErrExpiredToken\<close>
  provided the newly issued refresh token differs from the old one.
\<close>

theorem refresh_rotation:
  assumes contracts: "verify_contract s" "hash_contract s" "store_contract s"
    and login: "Login s w lreq = ((res1, None), w1)"
    and req: "req = \<lparr>req_RefreshToken = res_RefreshToken res1\<rparr>"
    and valid: "ValidateRefreshToken s req = None"
  shows "\<exists>u h. GetByID s (store w1) (GetID u) = Inr u \<and> RefreshToken u = Some h
           \<and> HashAndSalt s (salts w) (res_RefreshToken res1) = Inr h
           \<and> RefreshToken_op s w1 req =
               Returns (response s (generateJWT s
                 (w1\<lparr>trace := trace w1 @ [LookupByID (GetID u),
                         Compared h (res_RefreshToken res1)]\<rparr>) u))
           \<and> (\<forall>res2 w2. RefreshToken_op s w1 req = Returns ((res2, None), w2) \<longrightarrow>
                 (\<exists>u2 h2. GetByID s (store w2) (GetID u) = Inr u2 \<and> RefreshToken u2 = Some h2
                     \<and> HashAndSalt s (salts w1) (res_RefreshToken res2) = Inr h2)
               \<and> (res_RefreshToken res2 \<noteq> res_RefreshToken res1 \<longrightarrow>
                     (\<exists>w3. RefreshToken_op s w2 req
                             = Returns ((zeroResponse, Some ErrExpiredToken), w3))))"
proof -
  let ?rt1 = "res_RefreshToken res1"
  from Login_success[OF login] obtain u0 w0 ex where
    fr: "store w0 = store w" "ticks w0 = ticks w" "salts w0 = salts w"
    and gen: "generateJWT s w0 u0 = ((AccessToken res1, ex, ?rt1, None), w1)" by blast
  from issued_token_stored[OF contracts gen] fr obtain cl u h where
    v: "VerifyToken s ?rt1 (SigningKey s) = Inr cl"
       "string_claim cl ''token_type'' = TokenTypeRefresh"
       "string_claim cl ''id'' = GetID u0"
    and g: "GetByID s (store w1) (GetID u0) = Inr u" "GetID u = GetID u0"
       "RefreshToken u = Some h"
    and hs: "HashAndSalt s (salts w) ?rt1 = Inr h"
    and c: "\<forall>q. ComparePasswords s h q = (q = ?rt1)" by auto
  let ?w1' = "w1\<lparr>trace := trace w1 @ [LookupByID (GetID u), Compared h ?rt1]\<rparr>"
  have first: "RefreshToken_op s w1 req = Returns (response s (generateJWT s ?w1' u))"
    using RefreshToken_success_path[of s req cl w1 u h] valid v g c req by simp
  have second: "(\<exists>u2 h2. GetByID s (store w2) (GetID u) = Inr u2 \<and> RefreshToken u2 = Some h2
                     \<and> HashAndSalt s (salts w1) (res_RefreshToken res2) = Inr h2)
               \<and> (res_RefreshToken res2 \<noteq> ?rt1 \<longrightarrow>
                     (\<exists>w3. RefreshToken_op s w2 req
                             = Returns ((zeroResponse, Some ErrExpiredToken), w3)))"
    if ok: "RefreshToken_op s w1 req = Returns ((res2, None), w2)" for res2 w2
  proof -
    from ok first have "response s (generateJWT s ?w1' u) = ((res2, None), w2)" by simp
    from response_eq[OF this] obtain ex2 where
      gen2: "generateJWT s ?w1' u = ((AccessToken res2, ex2, res_RefreshToken res2, None), w2)"
      by blast
    from issued_token_stored[OF contracts gen2] obtain u2 h2 where
      g2: "GetByID s (store w2) (GetID u) = Inr u2" "RefreshToken u2 = Some h2"
      and hs2: "HashAndSalt s (salts w1) (res_RefreshToken res2) = Inr h2"
      and c2: "\<forall>q. ComparePasswords s h2 q = (q = res_RefreshToken res2)" by auto
    have "\<exists>w3. RefreshToken_op s w2 req = Returns ((zeroResponse, Some ErrExpiredToken), w3)"
      if "res_RefreshToken res2 \<noteq> ?rt1"
      using RefreshToken_expired_path[of s req cl w2 u2 h2] valid v g g2 c2 req that by auto
    with g2 hs2 show ?thesis by blast
  qed
  from g hs first second show ?thesis by (metis (no_types, lifting))
qed

text \<open>
  C2, at a concrete input: under a clock that advances a second per reading, alice
  logs in and receives \<open>R2\<close>; the first refresh issues \<open>R5\<close>; the second refresh with
  \<open>R2\<close> is answered with \<open>ErrExpiredToken\<close>.
\<close>

theorem refresh_rotation_witness:
  "verify_contract (fake ticking_clock) \<and> hash_contract (fake ticking_clock)
   \<and> store_contract (fake ticking_clock)
   \<and> fst (Login (fake ticking_clock) world0 alice_login)
        = (\<lparr>AccessToken = ''A61'', ExpiresAt = ''1970-01-01T00:01:00Z'',
            res_RefreshToken = ''R2''\<rparr>, None)
   \<and> fst (returned (RefreshToken_op (fake ticking_clock)
             (snd (Login (fake ticking_clock) world0 alice_login))
             \<lparr>req_RefreshToken = ''R2''\<rparr>))
        = (\<lparr>AccessToken = ''A64'', ExpiresAt = ''1970-01-01T00:01:03Z'',
            res_RefreshToken = ''R5''\<rparr>, None)
   \<and> (\<exists>w3. RefreshToken_op (fake ticking_clock)
             (snd (returned (RefreshToken_op (fake ticking_clock)
                (snd (Login (fake ticking_clock) world0 alice_login))
                \<lparr>req_RefreshToken = ''R2''\<rparr>)))
             \<lparr>req_RefreshToken = ''R2''\<rparr>
           = Returns ((zeroResponse, Some ErrExpiredToken), w3))"
proof -
  let ?s = "fake ticking_clock"
  let ?req = "\<lparr>req_RefreshToken = ''R2''\<rparr>"
  let ?res1 = "\<lparr>AccessToken = ''A61'', ExpiresAt = ''1970-01-01T00:01:00Z'',
                res_RefreshToken = ''R2''\<rparr>"
  let ?res2 = "\<lparr>AccessToken = ''A64'', ExpiresAt = ''1970-01-01T00:01:03Z'',
                res_RefreshToken = ''R5''\<rparr>"
  let ?w1 = "snd (Login ?s world0 alice_login)"
  have l: "fst (Login ?s world0 alice_login) = (?res1, None)"
    by (simp add: eval)
  then have login: "Login ?s world0 alice_login = ((?res1, None), ?w1)"
    by (simp add: prod_eq_iff)
  have req: "?req = \<lparr>req_RefreshToken = res_RefreshToken ?res1\<rparr>" by simp
  have valid: "ValidateRefreshToken ?s ?req = None" by (simp add: fake_def)
  have "\<exists>w2. RefreshToken_op ?s ?w1 ?req = Returns ((?res2, None), w2)"
    by (simp add: eval)
  then obtain w2 where r: "RefreshToken_op ?s ?w1 ?req = Returns ((?res2, None), w2)" ..
  have differ: "res_RefreshToken ?res2 \<noteq> res_RefreshToken ?res1" by simp
  from refresh_rotation[OF fake_verify_contract fake_hash_contract fake_store_contract
      login req valid] r differ
  have "\<exists>w3. RefreshToken_op ?s w2 ?req = Returns ((zeroResponse, Some ErrExpiredToken), w3)"
    by blast
  moreover have "fst (returned (RefreshToken_op ?s ?w1 ?req)) = (?res2, None)"
    and "snd (returned (RefreshToken_op ?s ?w1 ?req)) = w2"
    by (simp_all add: r)
  ultimately show ?thesis
    using l fake_verify_contract fake_hash_contract fake_store_contract by simp
qed

text \<open>
  C2 as stated fails when the clock does not pass a second boundary between the login
  and the refresh: the claims of the new refresh token are those of the old one, the
  signature is a function of the claims, so the "new" token is the old string and its
  hash is stored again. Alice logs in, refreshes with \<open>R0\<close> and refreshes with \<open>R0\<close>
  once more; all three calls return a nil error.
\<close>

theorem refresh_rotation_counterexample:
  "login_refresh_refresh (fake frozen_clock) world0 alice_login
    = Some ((\<lparr>AccessToken = ''A60'', ExpiresAt = ''1970-01-01T00:01:00Z'',
               res_RefreshToken = ''R0''\<rparr>, None),
            (\<lparr>AccessToken = ''A60'', ExpiresAt = ''1970-01-01T00:01:00Z'',
               res_RefreshToken = ''R0''\<rparr>, None),
            (\<lparr>AccessToken = ''A60'', ExpiresAt = ''1970-01-01T00:01:00Z'',
               res_RefreshToken = ''R0''\<rparr>, None))"
  by (simp add: login_refresh_refresh_def eval)

subsection \<open>Login failures\<close>

text \<open>
  C3. Once the request is valid: a username the store does not know and a stored
  identity presented with a wrong password both make \<open>Login\<close> return the zero response
  with \<open>ErrInvalidCreds\<close>, and any other error of the lookup is returned unchanged.
\<close>

theorem Login_invalid_credentials:
  assumes "ValidateLogin s req = None"
  shows "(GetByUsername s (store w) (req_Username req) = Inl ErrResourceNotFound \<longrightarrow>
            fst (Login s w req) = (zeroResponse, Some ErrInvalidCreds))
       \<and> (\<forall>u. GetByUsername s (store w) (req_Username req) = Inr u \<and>
              \<not> ComparePasswords s (GetPassword u) (req_Password req) \<longrightarrow>
            fst (Login s w req) = (zeroResponse, Some ErrInvalidCreds))
       \<and> (\<forall>e. GetByUsername s (store w) (req_Username req) = Inl e \<and>
              e \<noteq> ErrResourceNotFound \<longrightarrow>
            fst (Login s w req) = (zeroResponse, Some e))"
  using assms by (simp add: Login_def authenticate_def Let_def)

text \<open>
  C3, at concrete inputs: the unknown user bob, alice with a wrong password, and a
  repository that refuses the connection.
\<close>

theorem Login_invalid_credentials_witness:
  "fst (Login (fake frozen_clock) world0 \<lparr>req_Username = ''bob'', req_Password = ''secret''\<rparr>)
     = (zeroResponse, Some ErrInvalidCreds)
   \<and> fst (Login (fake frozen_clock) world0 \<lparr>req_Username = ''alice'', req_Password = ''guess''\<rparr>)
     = (zeroResponse, Some ErrInvalidCreds)
   \<and> fst (Login ((fake frozen_clock)\<lparr>GetByUsername := down_Get\<rparr>) world0 alice_login)
     = (zeroResponse, Some (ErrOther ''connection refused''))"
proof -
  let ?s = "fake frozen_clock"
  let ?bob = "\<lparr>req_Username = ''bob'', req_Password = ''secret''\<rparr>"
  let ?guess = "\<lparr>req_Username = ''alice'', req_Password = ''guess''\<rparr>"
  have v1: "ValidateLogin ?s ?bob = None" by (simp add: fake_def)
  have v2: "ValidateLogin ?s ?guess = None" by (simp add: fake_def)
  have v3: "ValidateLogin (?s\<lparr>GetByUsername := down_Get\<rparr>) alice_login = None"
    by (simp add: fake_def alice_login_def)
  have g1: "GetByUsername ?s (store world0) (req_Username ?bob) = Inl ErrResourceNotFound"
    by (simp add: fake_defs)
  have g2: "GetByUsername ?s (store world0) (req_Username ?guess) = Inr alice
            \<and> \<not> ComparePasswords ?s (GetPassword alice) (req_Password ?guess)"
    by (simp add: fake_defs GetPassword_def)
  have g3: "GetByUsername (?s\<lparr>GetByUsername := down_Get\<rparr>) (store world0)
              (req_Username alice_login) = Inl (ErrOther ''connection refused'')
            \<and> ErrOther ''connection refused'' \<noteq> ErrResourceNotFound"
    by (simp add: fake_defs)
  from Login_invalid_credentials[OF v1, of world0] g1
       Login_invalid_credentials[OF v2, of world0] g2
       Login_invalid_credentials[OF v3, of world0] g3
  show ?thesis by blast
qed

text \<open>
  C8. For a stored identity looked up under its own username, once the request is
  valid: with the correct password and the active flag false, \<open>Login\<close> returns the zero
  response with \<open>ErrUserIsNotActive\<close>, which is not \<open>ErrInvalidCreds\<close>; and whenever
  \<open>Login\<close> returns \<open>ErrUserIsNotActive\<close> for it, the password comparison was made and
  succeeded.
\<close>

theorem Login_inactive_account:
  assumes "ValidateLogin s req = None"
    and "GetByUsername s (store w) (req_Username req) = Inr u"
    and "Username u = req_Username req"
  shows "(ComparePasswords s (Password u) (req_Password req) \<and> \<not> IsActive u \<longrightarrow>
            fst (Login s w req) = (zeroResponse, Some ErrUserIsNotActive)
            \<and> Some ErrUserIsNotActive \<noteq> Some ErrInvalidCreds)
       \<and> (snd (fst (Login s w req)) = Some ErrUserIsNotActive \<longrightarrow>
            ComparePasswords s (Password u) (req_Password req)
            \<and> Compared (Password u) (req_Password req) \<in> set (trace (snd (Login s w req))))"
  using assms
  by (auto simp add: service_defs Let_def split: prod.splits sum.splits option.splits)

text \<open>C8, at a concrete input: carol is stored, inactive, and presents her password.\<close>

theorem Login_inactive_account_witness:
  "fst (Login (fake frozen_clock) world0 \<lparr>req_Username = ''carol'', req_Password = ''hunter2''\<rparr>)
     = (zeroResponse, Some ErrUserIsNotActive)
   \<and> ComparePasswords (fake frozen_clock) (Password carol) ''hunter2''
   \<and> \<not> IsActive carol
   \<and> Compared (Password carol) ''hunter2''
        \<in> set (trace (snd (Login (fake frozen_clock) world0
                  \<lparr>req_Username = ''carol'', req_Password = ''hunter2''\<rparr>)))"
proof -
  let ?s = "fake frozen_clock"
  let ?req = "\<lparr>req_Username = ''carol'', req_Password = ''hunter2''\<rparr>"
  have 1: "ValidateLogin ?s ?req = None" by (simp add: fake_def)
  have 2: "GetByUsername ?s (store world0) (req_Username ?req) = Inr carol"
    by (simp add: fake_defs)
  have 3: "Username carol = req_Username ?req" by (simp add: carol_def)
  have 4: "ComparePasswords ?s (Password carol) (req_Password ?req) \<and> \<not> IsActive carol"
    by (simp add: fake_defs)
  note t = Login_inactive_account[OF 1 2 3]
  from t 4 have 5: "fst (Login ?s world0 ?req) = (zeroResponse, Some ErrUserIsNotActive)"
    by blast
  then have "snd (fst (Login ?s world0 ?req)) = Some ErrUserIsNotActive" by simp
  with t have "Compared (Password carol) (req_Password ?req)
                 \<in> set (trace (snd (Login ?s world0 ?req)))"
    by blast
  with 4 5 show ?thesis by simp
qed

subsection \<open>Refresh with a token of the wrong shape\<close>

text \<open>
  C4. A token that passes validation and verifies under the configured key, but whose
  \<open>token_type\<close> claim is not the string \<open>refresh\<close> (another string, another type of
  value, or no claim at all), makes \<open>RefreshToken\<close> return the zero response with
  \<open>ErrInvalidToken\<close> and leaves the world as it was: no lookup, no comparison, no clock
  reading, no signature, no hash and no update.
\<close>

theorem RefreshToken_wrong_type:
  assumes "ValidateRefreshToken s req = None"
    and "VerifyToken s (req_RefreshToken req) (SigningKey s) = Inr cl"
    and "cl ''token_type'' \<noteq> Some (JString ''refresh'')"
  shows "RefreshToken_op s w req = Returns ((zeroResponse, Some ErrInvalidToken), w)"
  using assms
  by (auto simp add: RefreshToken_op_def string_claim_def TokenTypeRefresh_def Let_def
      split: option.splits jvalue.splits)

text \<open>C4, at a concrete input: the access token \<open>A60\<close> presented as a refresh token.\<close>

theorem RefreshToken_wrong_type_witness:
  "RefreshToken_op (fake frozen_clock) world0 \<lparr>req_RefreshToken = ''A60''\<rparr>
     = Returns ((zeroResponse, Some ErrInvalidToken), world0)"
proof -
  let ?s = "fake frozen_clock"
  let ?req = "\<lparr>req_RefreshToken = ''A60''\<rparr>"
  let ?cl = "map_of (snd (access_entry ''A60'' 60))"
  have 1: "ValidateRefreshToken ?s ?req = None" by (simp add: fake_def)
  have 2: "VerifyToken ?s (req_RefreshToken ?req) (SigningKey ?s) = Inr ?cl"
    by (simp add: fake_defs)
  have 3: "?cl ''token_type'' \<noteq> Some (JString ''refresh'')" by (simp add: access_entry_def)
  from RefreshToken_wrong_type[OF 1 2 3] show ?thesis .
qed

text \<open>
  C7. A token that passes validation, verifies, has type \<open>refresh\<close> and whose \<open>id\<close> claim
  is missing or not a string is handled exactly as a token whose \<open>id\<close> claim is the
  empty string; and an error of the lookup by the empty id is returned unchanged with
  the zero response, after that one lookup.
\<close>

theorem RefreshToken_missing_id:
  assumes "ValidateRefreshToken s req = None"
    and "VerifyToken s (req_RefreshToken req) (SigningKey s) = Inr cl"
    and "cl ''token_type'' = Some (JString ''refresh'')"
    and "\<forall>v. cl ''id'' \<noteq> Some (JString v)"
  shows "RefreshToken_op s w req
           = RefreshToken_op (s\<lparr>VerifyToken := \<lambda>tok key. Inr (cl(''id'' \<mapsto> JString []))\<rparr>) w req
       \<and> (\<forall>e. GetByID s (store w) [] = Inl e \<longrightarrow>
            RefreshToken_op s w req
              = Returns ((zeroResponse, Some e), w\<lparr>trace := trace w @ [LookupByID []]\<rparr>))"
proof -
  have i: "string_claim cl ''id'' = []"
    using assms(4) by (auto simp add: string_claim_def split: option.splits jvalue.splits)
  have t: "string_claim cl ''token_type'' = TokenTypeRefresh"
    using assms(3) by (simp add: string_claim_def TokenTypeRefresh_def)
  have "RefreshToken_op s w req
           = RefreshToken_op (s\<lparr>VerifyToken := \<lambda>tok key. Inr (cl(''id'' \<mapsto> JString []))\<rparr>) w req"
    using assms(1,2) i t
    by (auto simp add: RefreshToken_op_def Let_def string_claim_def generateJWT_VerifyToken
        response_VerifyToken split: sum.splits option.splits)
  moreover have "\<forall>e. GetByID s (store w) [] = Inl e \<longrightarrow>
            RefreshToken_op s w req
              = Returns ((zeroResponse, Some e), w\<lparr>trace := trace w @ [LookupByID []]\<rparr>)"
    using assms(1,2) i t by (simp add: RefreshToken_op_def Let_def)
  ultimately show ?thesis by blast
qed

text \<open>
  C7, at a concrete input: a refresh token without an id claim; the store has no
  record with the empty id and answers not-found, which is what the caller receives.
\<close>

theorem RefreshToken_missing_id_witness:
  "RefreshToken_op (fake frozen_clock) world0 \<lparr>req_RefreshToken = ''R-anonymous''\<rparr>
     = Returns ((zeroResponse, Some ErrResourceNotFound),
                world0\<lparr>trace := trace world0 @ [LookupByID []]\<rparr>)"
proof -
  let ?s = "fake frozen_clock"
  let ?req = "\<lparr>req_RefreshToken = ''R-anonymous''\<rparr>"
  let ?cl = "map_of (snd anonymous_entry)"
  have 1: "ValidateRefreshToken ?s ?req = None" by (simp add: fake_def)
  have 2: "VerifyToken ?s (req_RefreshToken ?req) (SigningKey ?s) = Inr ?cl"
    by (simp add: fake_defs)
  have 3: "?cl ''token_type'' = Some (JString ''refresh'')" by (simp add: anonymous_entry_def)
  have 4: "\<forall>v. ?cl ''id'' \<noteq> Some (JString v)" by (simp add: anonymous_entry_def)
  have 5: "GetByID ?s (store world0) [] = Inl ErrResourceNotFound" by (simp add: fake_defs)
  from RefreshToken_missing_id[OF 1 2 3 4, of world0] 5 show ?thesis by blast
qed

subsection \<open>The access token\<close>





subsection \<open>Issuance and the store\<close>

text \<open>
  C6. Whatever \<open>generateJWT\<close> returns: if the access token cannot be signed, or the
  access token is signed and the refresh token cannot be, the wrapped signing error is
  returned, the store is the one the call started from and no update was sent; if
  both tokens are signed, the refresh token is hashed and the update fails, the error
  of the update is the error returned.
\<close>

theorem generateJWT_failure_modes:
  assumes "generateJWT s w u = ((accessToken, expiresAt, refreshToken, err), w')"
  shows "(\<forall>e. SignedString s HS256 (access_claims s (ticks w) u) (SigningKey s) = Inl e \<longrightarrow>
            err = Some (Wrapped e ''cannot generate token'')
            \<and> store w' = store w \<and> updates (trace w') = updates (trace w))
       \<and> (\<forall>at e. SignedString s HS256 (access_claims s (ticks w) u) (SigningKey s) = Inr at \<and>
            SignedString s HS256 (refresh_claims s (ticks w + 2) u) (SigningKey s) = Inl e \<longrightarrow>
            err = Some (Wrapped e ''cannot generate token'')
            \<and> store w' = store w \<and> updates (trace w') = updates (trace w))
       \<and> (\<forall>at rt h e st.
            SignedString s HS256 (access_claims s (ticks w) u) (SigningKey s) = Inr at \<and>
            SignedString s HS256 (refresh_claims s (ticks w + 2) u) (SigningKey s) = Inr rt \<and>
            HashAndSalt s (salts w) rt = Inr h \<and>
            Update s (store w) (GetID u) (update_payload u h) = (Some e, st) \<longrightarrow>
            err = Some e \<and> accessToken = at \<and> refreshToken = rt)"
  using assms
  by (auto simp add: generateJWT_cases updates_append split: sum.splits)

text \<open>
  C6, at concrete inputs: a signing key the signer rejects, refresh claims the signer
  cannot sign, and a repository that refuses the update.
\<close>

theorem generateJWT_failure_modes_witness:
  "snd (snd (snd (fst (generateJWT ((fake frozen_clock)\<lparr>SigningKey := ''wrong''\<rparr>) world0 alice))))
      = Some (Wrapped (ErrOther ''key is invalid'') ''cannot generate token'')
   \<and> store (snd (generateJWT ((fake frozen_clock)\<lparr>SigningKey := ''wrong''\<rparr>) world0 alice))
      = store world0
   \<and> snd (snd (snd (fst (generateJWT ((fake frozen_clock)\<lparr>AddDate := stuck_AddDate\<rparr>) world0 alice))))
      = Some (Wrapped (ErrOther ''unknown claims'') ''cannot generate token'')
   \<and> updates (trace (snd (generateJWT ((fake frozen_clock)\<lparr>AddDate := stuck_AddDate\<rparr>) world0 alice)))
      = updates (trace world0)
   \<and> snd (snd (snd (fst (generateJWT ((fake frozen_clock)\<lparr>Update := down_Update\<rparr>) world0 alice))))
      = Some (ErrOther ''connection refused'')"
proof -
  let ?s1 = "(fake frozen_clock)\<lparr>SigningKey := ''wrong''\<rparr>"
  let ?s2 = "(fake frozen_clock)\<lparr>AddDate := stuck_AddDate\<rparr>"
  let ?s3 = "(fake frozen_clock)\<lparr>Update := down_Update\<rparr>"
  have a1: "SignedString ?s1 HS256 (access_claims ?s1 (ticks world0) alice) (SigningKey ?s1)
              = Inl (ErrOther ''key is invalid'')"
    by (simp add: fake_defs)
  have a2: "SignedString ?s2 HS256 (access_claims ?s2 (ticks world0) alice) (SigningKey ?s2)
              = Inr ''A60''
          \<and> SignedString ?s2 HS256 (refresh_claims ?s2 (ticks world0 + 2) alice) (SigningKey ?s2)
              = Inl (ErrOther ''unknown claims'')"
    by (simp add: fake_defs GetID_def GetUsername_def TokenTypeRefresh_def TokenTypeAccess_def)
  have a3: "SignedString ?s3 HS256 (access_claims ?s3 (ticks world0) alice) (SigningKey ?s3)
              = Inr ''A60''
          \<and> SignedString ?s3 HS256 (refresh_claims ?s3 (ticks world0 + 2) alice) (SigningKey ?s3)
              = Inr ''R0''
          \<and> HashAndSalt ?s3 (salts world0) ''R0'' = Inr ''#R0''
          \<and> Update ?s3 (store world0) (GetID alice) (update_payload alice ''#R0'')
               = (Some (ErrOther ''connection refused''), store world0)"
    by (simp add: fake_defs GetID_def GetUsername_def TokenTypeRefresh_def TokenTypeAccess_def)
  from generateJWT_failure_modes[OF tuple_collapse, of ?s1 world0 alice] a1
  have 1: "snd (snd (snd (fst (generateJWT ?s1 world0 alice))))
             = Some (Wrapped (ErrOther ''key is invalid'') ''cannot generate token'')
           \<and> store (snd (generateJWT ?s1 world0 alice)) = store world0"
    by blast
  from generateJWT_failure_modes[OF tuple_collapse, of ?s2 world0 alice] a2
  have 2: "snd (snd (snd (fst (generateJWT ?s2 world0 alice))))
             = Some (Wrapped (ErrOther ''unknown claims'') ''cannot generate token'')
           \<and> updates (trace (snd (generateJWT ?s2 world0 alice))) = updates (trace world0)"
    by blast
  from generateJWT_failure_modes[OF tuple_collapse, of ?s3 world0 alice] a3
  have 3: "snd (snd (snd (fst (generateJWT ?s3 world0 alice))))
             = Some (ErrOther ''connection refused'')"
    by blast
  from 1 2 3 show ?thesis by blast
qed

text \<open>
  C9, as amended. When \<open>generateJWT\<close> returns without error, exactly one update was
  sent to the store. It is keyed by the identity's id; its payload carries the value
  \<open>HashAndSalt\<close> returned for the newly issued refresh token in the refresh-token field
  and the identity's id in the ID field, and every other field of the payload has its
  zero value; the store of the resulting world is the one that update returned.
\<close>

theorem generateJWT_update_payload:
  assumes "generateJWT s w u = ((accessToken, expiresAt, refreshToken, None), w')"
  shows "\<exists>h. HashAndSalt s (salts w) refreshToken = Inr h
           \<and> updates (trace w') = updates (trace w) @
                [(ID u, \<lparr>ID = ID u, Username = [], Password = [], FullName = None,
                         RefreshToken = Some h, IsActive = False,
                         CreatedAt = zeroTime, UpdatedAt = zeroTime\<rparr>)]
           \<and> Update s (store w) (ID u)
                \<lparr>ID = ID u, Username = [], Password = [], FullName = None,
                  RefreshToken = Some h, IsActive = False,
                  CreatedAt = zeroTime, UpdatedAt = zeroTime\<rparr> = (None, store w')"
  using assms
  by (auto simp add: generateJWT_cases updates_append update_payload_def zeroUser_def GetID_def
      prod_eq_iff split: sum.splits)

text \<open>C9, at a concrete input: the pair issued for alice under the clock that stands still.\<close>

theorem generateJWT_update_payload_witness:
  "\<exists>h. HashAndSalt (fake frozen_clock) (salts world0) ''R0'' = Inr h
      \<and> updates (trace (snd (generateJWT (fake frozen_clock) world0 alice)))
          = updates (trace world0) @
              [(ID alice, \<lparr>ID = ID alice, Username = [], Password = [], FullName = None,
                           RefreshToken = Some h, IsActive = False,
                           CreatedAt = zeroTime, UpdatedAt = zeroTime\<rparr>)]
      \<and> Update (fake frozen_clock) (store world0) (ID alice)
           \<lparr>ID = ID alice, Username = [], Password = [], FullName = None,
             RefreshToken = Some h, IsActive = False,
             CreatedAt = zeroTime, UpdatedAt = zeroTime\<rparr>
          = (None, store (snd (generateJWT (fake frozen_clock) world0 alice)))"
proof -
  let ?s = "fake frozen_clock"
  have "fst (generateJWT ?s world0 alice) = (''A60'', 60000000000, ''R0'', None)"
    by (simp add: eval)
  then have "generateJWT ?s world0 alice
               = ((''A60'', 60000000000, ''R0'', None), snd (generateJWT ?s world0 alice))"
    by (simp add: prod_eq_iff)
  from generateJWT_update_payload[OF this] show ?thesis .
qed

text \<open>
  C9 as stated fails on the ID field: the payload of the update sent for alice has
  the ID \<open>u1\<close>, which is not the zero value of that field.
\<close>

theorem generateJWT_update_payload_counterexample:
  "snd (snd (snd (fst (generateJWT (fake frozen_clock) world0 alice)))) = None
   \<and> updates (trace (snd (generateJWT (fake frozen_clock) world0 alice)))
       = [(''u1'', \<lparr>ID = ''u1'', Username = [], Password = [], FullName = None,
                    RefreshToken = Some ''#R0'', IsActive = False,
                    CreatedAt = zeroTime, UpdatedAt = zeroTime\<rparr>)]
   \<and> ID zeroUser \<noteq> ''u1''"
  by (simp add: eval)

text \<open>
  C10. Suppose both tokens are signed (and are not empty strings), the refresh token
  is hashed and the update of the store fails with an error. Then a valid login of an
  active identity with its correct password returns that error together with a
  response that holds the two freshly signed tokens, and so does a refresh that has
  passed verification, the type check, the lookup and the hash comparison; in both
  cases the response is not the zero response.
\<close>

theorem store_failure_keeps_tokens:
  assumes "SignedString s HS256 (access_claims s (ticks w) u) (SigningKey s) = Inr at"
    and "SignedString s HS256 (refresh_claims s (ticks w + 2) u) (SigningKey s) = Inr rt"
    and "HashAndSalt s (salts w) rt = Inr h"
    and "Update s (store w) (GetID u) (update_payload u h) = (Some e, st)"
    and "at \<noteq> []" and "rt \<noteq> []"
  shows "(ValidateLogin s lreq = None \<and>
          GetByUsername s (store w) (req_Username lreq) = Inr u \<and>
          Username u = req_Username lreq \<and>
          ComparePasswords s (Password u) (req_Password lreq) \<and> IsActive u \<longrightarrow>
            snd (fst (Login s w lreq)) = Some e
            \<and> AccessToken (fst (fst (Login s w lreq))) = at
            \<and> res_RefreshToken (fst (fst (Login s w lreq))) = rt
            \<and> fst (fst (Login s w lreq)) \<noteq> zeroResponse)
       \<and> (ValidateRefreshToken s rreq = None \<and>
          VerifyToken s (req_RefreshToken rreq) (SigningKey s) = Inr cl \<and>
          string_claim cl ''token_type'' = ''refresh'' \<and>
          GetByID s (store w) (string_claim cl ''id'') = Inr u \<and>
          RefreshToken u = Some stored \<and>
          ComparePasswords s stored (req_RefreshToken rreq) \<longrightarrow>
            (\<exists>res w'. RefreshToken_op s w rreq = Returns ((res, Some e), w')
               \<and> AccessToken res = at \<and> res_RefreshToken res = rt \<and> res \<noteq> zeroResponse))"
proof (intro conjI impI)
  assume a: "ValidateLogin s lreq = None \<and>
          GetByUsername s (store w) (req_Username lreq) = Inr u \<and>
          Username u = req_Username lreq \<and>
          ComparePasswords s (Password u) (req_Password lreq) \<and> IsActive u"
  then have L: "Login s w lreq = response s (generateJWT s
             (w\<lparr>trace := trace w @ [LookupByUsername (req_Username lreq),
                                    Compared (Password u) (req_Password lreq)]\<rparr>) u)"
    by (simp add: Login_success_path)
  show "snd (fst (Login s w lreq)) = Some e"
    using assms by (simp add: L generateJWT_cases response_def)
  show "AccessToken (fst (fst (Login s w lreq))) = at"
    using assms by (simp add: L generateJWT_cases response_def)
  show "res_RefreshToken (fst (fst (Login s w lreq))) = rt"
    using assms by (simp add: L generateJWT_cases response_def)
  show "fst (fst (Login s w lreq)) \<noteq> zeroResponse"
    using assms by (simp add: L generateJWT_cases response_def zeroResponse_def)
next
  assume a: "ValidateRefreshToken s rreq = None \<and>
          VerifyToken s (req_RefreshToken rreq) (SigningKey s) = Inr cl \<and>
          string_claim cl ''token_type'' = ''refresh'' \<and>
          GetByID s (store w) (string_claim cl ''id'') = Inr u \<and>
          RefreshToken u = Some stored \<and>
          ComparePasswords s stored (req_RefreshToken rreq)"
  then have R: "RefreshToken_op s w rreq = Returns (response s (generateJWT s
             (w\<lparr>trace := trace w @ [LookupByID (string_claim cl ''id''),
                                    Compared stored (req_RefreshToken rreq)]\<rparr>) u))"
    by (simp add: RefreshToken_success_path TokenTypeRefresh_def)
  show "\<exists>res w'. RefreshToken_op s w rreq = Returns ((res, Some e), w')
               \<and> AccessToken res = at \<and> res_RefreshToken res = rt \<and> res \<noteq> zeroResponse"
    using assms by (simp add: R generateJWT_cases response_def zeroResponse_def)
qed

text \<open>
  C10, at concrete inputs: alice logs in, and alice (with the hash of \<open>R0\<close> stored)
  refreshes with \<open>R0\<close>, while the repository refuses every update.
\<close>

theorem store_failure_keeps_tokens_witness:
  "fst (Login ((fake frozen_clock)\<lparr>Update := down_Update\<rparr>) world0 alice_login)
     = (\<lparr>AccessToken = ''A60'', ExpiresAt = ''1970-01-01T00:01:00Z'',
         res_RefreshToken = ''R0''\<rparr>,
        Some (ErrOther ''connection refused''))
   \<and> (\<exists>res w'. RefreshToken_op ((fake frozen_clock)\<lparr>Update := down_Update\<rparr>) world1
                   \<lparr>req_RefreshToken = ''R0''\<rparr>
                 = Returns ((res, Some (ErrOther ''connection refused'')), w')
               \<and> AccessToken res = ''A60'' \<and> res_RefreshToken res = ''R0''
               \<and> res \<noteq> zeroResponse)"
proof -
  let ?s = "(fake frozen_clock)\<lparr>Update := down_Update\<rparr>"
  let ?e = "ErrOther ''connection refused''"
  let ?req = "\<lparr>req_RefreshToken = ''R0''\<rparr>"
  let ?cl = "map_of (snd (refresh_entry ''R0'' 31556995200))"
  let ?u = "alice\<lparr>RefreshToken := Some ''#R0''\<rparr>"
  have a1: "SignedString ?s HS256 (access_claims ?s (ticks world0) alice) (SigningKey ?s)
              = Inr ''A60''"
    by (simp add: fake_defs GetID_def GetUsername_def TokenTypeAccess_def)
  have a2: "SignedString ?s HS256 (refresh_claims ?s (ticks world0 + 2) alice) (SigningKey ?s)
              = Inr ''R0''"
    by (simp add: fake_defs GetID_def TokenTypeRefresh_def)
  have a3: "HashAndSalt ?s (salts world0) ''R0'' = Inr ''#R0''"
    by (simp add: fake_defs)
  have a4: "Update ?s (store world0) (GetID alice) (update_payload alice ''#R0'')
              = (Some ?e, store world0)"
    by (simp add: fake_defs)
  have ne: "''A60'' \<noteq> []" "''R0'' \<noteq> []" by simp_all
  have l: "ValidateLogin ?s alice_login = None \<and>
          GetByUsername ?s (store world0) (req_Username alice_login) = Inr alice \<and>
          Username alice = req_Username alice_login \<and>
          ComparePasswords ?s (Password alice) (req_Password alice_login) \<and> IsActive alice"
    by (simp add: fake_defs)
  have b1: "SignedString ?s HS256 (access_claims ?s (ticks world1) ?u) (SigningKey ?s)
              = Inr ''A60''"
    by (simp add: fake_defs GetID_def GetUsername_def TokenTypeAccess_def)
  have b2: "SignedString ?s HS256 (refresh_claims ?s (ticks world1 + 2) ?u) (SigningKey ?s)
              = Inr ''R0''"
    by (simp add: fake_defs GetID_def TokenTypeRefresh_def)
  have b3: "HashAndSalt ?s (salts world1) ''R0'' = Inr ''s#R0''"
    by (simp add: fake_defs)
  have b4: "Update ?s (store world1) (GetID ?u) (update_payload ?u ''s#R0'')
              = (Some ?e, store world1)"
    by (simp add: fake_defs)
  have r: "ValidateRefreshToken ?s ?req = None \<and>
          VerifyToken ?s (req_RefreshToken ?req) (SigningKey ?s) = Inr ?cl \<and>
          string_claim ?cl ''token_type'' = ''refresh'' \<and>
          GetByID ?s (store world1) (string_claim ?cl ''id'') = Inr ?u \<and>
          RefreshToken ?u = Some ''#R0'' \<and>
          ComparePasswords ?s ''#R0'' (req_RefreshToken ?req)"
    by (simp add: fake_defs string_claim_def)
  have e: "ExpiresAt (fst (fst (Login ?s world0 alice_login))) = ''1970-01-01T00:01:00Z''"
    by (simp add: eval)
  from store_failure_keeps_tokens[OF a1 a2 a3 a4 ne, of alice_login] l
  have "snd (fst (Login ?s world0 alice_login)) = Some ?e
        \<and> AccessToken (fst (fst (Login ?s world0 alice_login))) = ''A60''
        \<and> res_RefreshToken (fst (fst (Login ?s world0 alice_login))) = ''R0''"
    by blast
  with e have 1: "fst (Login ?s world0 alice_login)
     = (\<lparr>AccessToken = ''A60'', ExpiresAt = ''1970-01-01T00:01:00Z'',
         res_RefreshToken = ''R0''\<rparr>, Some ?e)"
    by (cases "fst (fst (Login ?s world0 alice_login))") (simp add: prod_eq_iff)
  from store_failure_keeps_tokens[OF b1 b2 b3 b4 ne, of _ ?req ?cl "''#R0''"] r
  have 2: "\<exists>res w'. RefreshToken_op ?s world1 ?req = Returns ((res, Some ?e), w')
               \<and> AccessToken res = ''A60'' \<and> res_RefreshToken res = ''R0''
               \<and> res \<noteq> zeroResponse"
    by blast
  from 1 2 show ?thesis by blast
qed

end
